theory Spec2Isabelle
  imports Complex_Main "HOL-Library.Word"
begin

text \<open>
  The session logic of the two petition-drafting clients: the chat client (component
  \<open>Home\<close>, with \<open>handleSubmit\<close> and \<open>handleFeedback\<close>) and the structured
  client (\<open>App.jsx\<close>, component \<open>PetitionChatbot\<close>, with \<open>handleSendMessage\<close>,
  \<open>handleGeneratePetition\<close>, \<open>handleFinalize\<close> and the validation panel).

  A handler is a function from the component state its closure sees, and from what the
  outside world answers (the outcome of the awaited \<open>fetch\<close>, the clock, the answers to
  the prompts), to the state after the handler has run to its end and the list of its
  effects in order. No other event is taken to run between the \<open>await\<close> of a handler and
  its continuation.
\<close>

section \<open>JavaScript values used by both clients\<close>

text \<open>
  A JavaScript string is a sequence of 16-bit code units. \<open>ascii\<close> writes a literal of
  the source whose characters are all ASCII.
\<close>

type_synonym jsstring = "16 word list"

definition ascii :: "string \<Rightarrow> jsstring" where
  "ascii s = map (\<lambda>c. of_char c) s"

text \<open>
  \<open>String.prototype.trim\<close> removes, from both ends, the code units that ECMAScript
  calls WhiteSpace or LineTerminator.
\<close>

definition isWhiteSpace :: "16 word \<Rightarrow> bool" where
  "isWhiteSpace c \<longleftrightarrow>
     c = 0x0009 \<or> c = 0x000A \<or> c = 0x000B \<or> c = 0x000C \<or> c = 0x000D \<or>
     c = 0x0020 \<or> c = 0x00A0 \<or> c = 0x1680 \<or> (0x2000 \<le> c \<and> c \<le> 0x200A) \<or>
     c = 0x2028 \<or> c = 0x2029 \<or> c = 0x202F \<or> c = 0x205F \<or> c = 0x3000 \<or>
     c = 0xFEFF"

definition trim :: "jsstring \<Rightarrow> jsstring" where
  "trim s = rev (dropWhile isWhiteSpace (rev (dropWhile isWhiteSpace s)))"

text \<open>
  Truthiness of an optional string (\<open>undefined\<close>/\<open>null\<close> is \<open>None\<close>): only a
  non-empty string is truthy.
\<close>

fun truthy :: "jsstring option \<Rightarrow> bool" where
  "truthy None = False"
| "truthy (Some s) = (s \<noteq> [])"

text \<open>\<open>xs.slice(-n)\<close>: the last \<open>n\<close> elements, or all of them when there are fewer.\<close>

definition slice_from_end :: "nat \<Rightarrow> 'a list \<Rightarrow> 'a list" where
  "slice_from_end n xs = drop (length xs - n) xs"

text \<open>
  What a \<open>fetch\<close> can do once awaited: reject (a transport error, with the engine's
  message), or resolve with a status and a body. Of the body the clients read the
  \<open>detail\<close> field of an error object and the object of the success contract;
  \<open>json = None\<close> is a body that is not JSON, or the JSON \<open>null\<close>.
\<close>

datatype 'a fetch_outcome =
    Rejected jsstring
  | Resolved (status: nat) (detail: "jsstring option") (json: "'a option")

definition response_ok :: "nat \<Rightarrow> bool" where
  "response_ok st \<longleftrightarrow> 200 \<le> st \<and> st \<le> 299"

datatype js_error = Error jsstring | TypeError jsstring | SyntaxError jsstring

fun error_message :: "js_error \<Rightarrow> jsstring" where
  "error_message (Error m) = m"
| "error_message (TypeError m) = m"
| "error_message (SyntaxError m) = m"

text \<open>
  The message of the TypeError raised by reading a property of \<open>null\<close>, in V8's wording;
  other engines word it differently.
\<close>

definition null_read :: "string \<Rightarrow> jsstring" where
  "null_read p = ascii (''Cannot read properties of null (reading '' @ [CHR 0x27] @ p @ [CHR 0x27] @ '')'')"

text \<open>
  The message of the SyntaxError with which \<open>response.json()\<close> rejects, in V8's
  wording for an empty body; it varies with the body and the engine.
\<close>

definition json_syntax_message :: jsstring where
  "json_syntax_message = ascii ''Unexpected end of JSON input''"

text \<open>
  A JavaScript number is an IEEE 754 double: NaN, an infinity (\<open>True\<close> for the
  negative one), or a finite value \<open>\<plusminus> m * 2 ^ e\<close> with a significand \<open>m\<close> below
  \<open>2 ^ 53\<close> (\<open>True\<close> for a negative sign).
\<close>

datatype number = NaN | Infinity bool | Finite bool nat int

definition finite_value :: "bool \<Rightarrow> nat \<Rightarrow> int \<Rightarrow> real" where
  "finite_value s m e =
     (if s then - 1 else 1) *
     (if 0 \<le> e then real m * 2 ^ nat e else real m / 2 ^ nat (- e))"

text \<open>The comparison \<open>a >= b\<close> of two numbers: false as soon as one of them is NaN.\<close>

fun js_ge :: "number \<Rightarrow> number \<Rightarrow> bool" where
  "js_ge NaN b = False"
| "js_ge a NaN = False"
| "js_ge (Infinity s) (Infinity t) = (if s then t else True)"
| "js_ge (Infinity s) (Finite t n f) = (\<not> s)"
| "js_ge (Finite s m e) (Infinity t) = t"
| "js_ge (Finite s m e) (Finite t n f) = (finite_value t n f \<le> finite_value s m e)"

text \<open>
  The doubles that the literals \<open>0.9\<close> and \<open>0.75\<close> of the source denote:
  \<open>0x1.ccccccccccccdp-1\<close> and \<open>0x1.8p-1\<close>.
\<close>

definition literal_0_9 :: number where
  "literal_0_9 = Finite False 8106479329266893 (- 53)"

definition literal_0_75 :: number where
  "literal_0_75 = Finite False 3 (- 2)"

section \<open>The chat client (component \<open>Home\<close>)\<close>

datatype role = RoleUser | RoleAssistant

record message =
  role :: role
  content :: jsstring
  conversationId :: "jsstring option"
  legalContext :: "jsstring list option"

record home_state =
  messages :: "message list"
  input :: jsstring
  loading :: bool
  feedbackMode :: "jsstring option"
  feedbackComment :: jsstring
  showFeedbackSuccess :: bool

text \<open>The body of a successful answer of \<open>/api/petition\<close>, as \<open>handleSubmit\<close> reads it.\<close>

record petition_data =
  petition :: jsstring
  conversation_id :: "jsstring option"
  legal_context :: "jsstring list option"

record petition_request =
  message :: jsstring
  conversation_history :: "message list"

datatype rating = Up | Down

record feedback_request =
  fb_conversation_id :: "jsstring option"
  fb_rating :: rating
  fb_comment :: "jsstring option"
  fb_petition_text :: jsstring

datatype home_effect =
    PreventDefault
  | PostPetition petition_request
  | PostFeedback feedback_request
  | ConsoleError jsstring js_error
  | SetTimeout nat

text \<open>
  Lines 51-62 of \<open>handleSubmit\<close>: the awaited \<open>fetch\<close>, the \<open>response.ok\<close> check and
  \<open>response.json()\<close>; \<open>Inl\<close> is what the \<open>try\<close> block throws. With a body that
  is not JSON, \<open>json()\<close> rejects with a SyntaxError. (With the JSON \<open>null\<close> as body
  it is the read of \<open>data.petition\<close> that throws, a TypeError; the \<open>catch\<close> is the
  same, and the model logs the SyntaxError for both.)
\<close>

definition petition_call :: "petition_data fetch_outcome \<Rightarrow> js_error + petition_data" where
  "petition_call out =
     (case out of
        Rejected m \<Rightarrow> Inl (TypeError m)
      | Resolved st d body \<Rightarrow>
          if \<not> response_ok st then Inl (Error (ascii ''Failed to generate petition''))
          else (case body of
                  None \<Rightarrow> Inl (SyntaxError json_syntax_message)
                | Some data \<Rightarrow> Inr data))"

definition userMessage :: "jsstring \<Rightarrow> message" where
  "userMessage text =
     \<lparr>role = RoleUser, content = text, conversationId = None, legalContext = None\<rparr>"

definition assistantMessage :: "petition_data \<Rightarrow> message" where
  "assistantMessage data =
     \<lparr>role = RoleAssistant, content = petition data,
      conversationId = conversation_id data, legalContext = legal_context data\<rparr>"

definition errorMessage :: message where
  "errorMessage =
     \<lparr>role = RoleAssistant,
      content = ascii ''Sorry, there was an error generating your petition. Please try again.'',
      conversationId = None, legalContext = None\<rparr>"

text \<open>
  \<open>handleSubmit\<close> up to its \<open>await\<close>: the guard, the optimistic user turn, and the
  request, whose history window is cut from \<open>messages\<close> as the handler's closure sees
  it, before the append. \<open>None\<close> says that the handler returned at the guard.
\<close>

definition handleSubmit_request :: "home_state \<Rightarrow> petition_request" where
  "handleSubmit_request st =
     \<lparr>message = content (userMessage (input st)),
      conversation_history = slice_from_end 10 (messages st)\<rparr>"

definition handleSubmit_begin :: "home_state \<Rightarrow> (home_state \<times> home_effect list) option" where
  "handleSubmit_begin st =
     (if trim (input st) = [] \<or> loading st then None
      else Some (st\<lparr>messages := messages st @ [userMessage (input st)],
                    input := [], loading := True\<rparr>,
                 [PostPetition (handleSubmit_request st)]))"

text \<open>After the \<open>await\<close>: the \<open>try\<close> body's result, the \<open>catch\<close> and the \<open>finally\<close>.\<close>

definition handleSubmit_resume ::
    "petition_data fetch_outcome \<Rightarrow> home_state \<Rightarrow> home_state \<times> home_effect list" where
  "handleSubmit_resume out st =
     (case petition_call out of
        Inr data \<Rightarrow>
          (st\<lparr>messages := messages st @ [assistantMessage data], loading := False\<rparr>, [])
      | Inl e \<Rightarrow>
          (st\<lparr>messages := messages st @ [errorMessage], loading := False\<rparr>,
           [ConsoleError (ascii ''Error:'') e]))"

definition handleSubmit ::
    "home_state \<Rightarrow> petition_data fetch_outcome \<Rightarrow> home_state \<times> home_effect list" where
  "handleSubmit st out =
     (case handleSubmit_begin st of
        None \<Rightarrow> (st, [PreventDefault])
      | Some (st1, eff1) \<Rightarrow>
          (let (st2, eff2) = handleSubmit_resume out st1
           in (st2, PreventDefault # eff1 @ eff2)))"

text \<open>
  \<open>handleFeedback\<close>. The awaited \<open>fetch\<close> is not inspected: any resolved response,
  whatever its status, continues after the \<open>await\<close>; only a rejection reaches the
  \<open>catch\<close>.
\<close>

definition feedback_body :: "home_state \<Rightarrow> rating \<Rightarrow> message \<Rightarrow> feedback_request" where
  "feedback_body st r m =
     \<lparr>fb_conversation_id = conversationId m, fb_rating = r,
      fb_comment = (if feedbackComment st \<noteq> [] then Some (feedbackComment st) else None),
      fb_petition_text = content m\<rparr>"

definition handleFeedback ::
    "rating \<Rightarrow> message \<Rightarrow> home_state \<Rightarrow> unit fetch_outcome \<Rightarrow> home_state \<times> home_effect list" where
  "handleFeedback r m st out =
     (if \<not> truthy (conversationId m) then (st, [])
      else if r = Down \<and> \<not> truthy (feedbackMode st) then
        (st\<lparr>feedbackMode := conversationId m\<rparr>, [])
      else
        (case out of
           Resolved s d b \<Rightarrow>
             (st\<lparr>showFeedbackSuccess := True, feedbackMode := None, feedbackComment := []\<rparr>,
              [PostFeedback (feedback_body st r m), SetTimeout 3000])
         | Rejected e \<Rightarrow>
             (st, [PostFeedback (feedback_body st r m),
                   ConsoleError (ascii ''Error submitting feedback:'') (TypeError e)])))"

text \<open>The requests among the effects of a handler run.\<close>

fun is_request :: "home_effect \<Rightarrow> bool" where
  "is_request (PostPetition r) = True"
| "is_request (PostFeedback r) = True"
| "is_request e = False"

definition requests :: "home_effect list \<Rightarrow> home_effect list" where
  "requests effs = filter is_request effs"

section \<open>The structured client (component \<open>PetitionChatbot\<close>)\<close>

datatype message_type = TUser | TAssistant | TSystem | TWarning | TError

record chat_message =
  type' :: message_type
  content' :: jsstring
  timestamp :: nat

record case_parties =
  petitioner :: jsstring
  respondent :: jsstring

record case_data =
  case_type :: jsstring
  jurisdiction :: jsstring
  facts :: jsstring
  parties :: case_parties
  prayers :: jsstring
  annexures :: "jsstring list"

record validation_check =
  check_name :: jsstring
  check_status :: jsstring
  check_message :: jsstring

record validation_result =
  overall_score :: number
  checks :: "validation_check list"

text \<open>
  The draft object that the generation call returns, with the fields the handlers and
  the validation panel read (sections and provenance are only rendered).
\<close>

record draft =
  draft_id :: jsstring
  validation :: validation_result
  template_version :: jsstring
  created_at :: jsstring
  coverage_score :: number

record health =
  health_status :: jsstring

record app_state =
  systemStatus :: "health option"
  loading' :: bool
  messages' :: "chat_message list"
  input' :: jsstring
  sessionId :: "jsstring option"
  currentDraft :: "draft option"
  showDraft :: bool
  templates :: "jsstring list"
  caseData :: case_data

record chat_request =
  chat_message :: jsstring
  chat_session_id :: "jsstring option"

record chat_reply =
  reply_response :: jsstring
  reply_session_id :: "jsstring option"

record finalize_request =
  fin_draft_id :: jsstring
  approver_name :: jsstring
  approver_id :: jsstring
  fin_notes :: jsstring

record finalize_result =
  result_draft_id :: jsstring
  result_status :: jsstring

datatype app_effect =
    PostChat chat_request
  | PostGenerate case_data
  | PostFinalize jsstring finalize_request
  | Alert jsstring
  | Prompt jsstring
  | RenderThrows js_error

text \<open>
  The three POST methods of the \<open>API\<close> object have one shape: the body is parsed with
  \<open>null\<close> standing in for a body that is not JSON, a response that is not ok throws
  an Error with the body's \<open>detail\<close> or a fixed message, and otherwise the parsed body
  is returned.
\<close>

definition api_post :: "jsstring \<Rightarrow> 'a fetch_outcome \<Rightarrow> js_error + 'a option" where
  "api_post fallback out =
     (case out of
        Rejected m \<Rightarrow> Inl (TypeError m)
      | Resolved st d payload \<Rightarrow>
          if \<not> response_ok st
          then Inl (Error (case d of None \<Rightarrow> fallback
                                   | Some x \<Rightarrow> if x \<noteq> [] then x else fallback))
          else Inr payload)"

definition API_generatePetition :: "draft fetch_outcome \<Rightarrow> js_error + draft option" where
  "API_generatePetition = api_post (ascii ''Failed to generate petition'')"

definition API_chat :: "chat_reply fetch_outcome \<Rightarrow> js_error + chat_reply option" where
  "API_chat = api_post (ascii ''Chat failed'')"

definition API_finalizePetition ::
    "finalize_result fetch_outcome \<Rightarrow> js_error + finalize_result option" where
  "API_finalizePetition = api_post (ascii ''Failed to finalize'')"

definition addSystemMessage :: "jsstring \<Rightarrow> message_type \<Rightarrow> nat \<Rightarrow> app_state \<Rightarrow> app_state" where
  "addSystemMessage c ty now st =
     st\<lparr>messages' := messages' st @ [\<lparr>type' = ty, content' = c, timestamp = now\<rparr>]\<rparr>"

text \<open>
  \<open>handleSendMessage\<close>; \<open>t1\<close> and \<open>t2\<close> are the two readings of the clock.

  The \<open>try\<close> body throws when the call throws. When the call returns \<open>null\<close> and the
  session has no reference yet, the read of \<open>response.session_id\<close> throws in the
  \<open>try\<close> body too. When the call returns \<open>null\<close> and the session has a reference,
  nothing in the \<open>try\<close> body reads the payload: the body ends normally, and
  \<open>response.response\<close> is read only when React runs the state updater, during rendering
  and outside the handler's \<open>catch\<close>. Then no error turn is appended, the throw ends the
  rendering and the component is unmounted; the model records this as the effect
  \<open>RenderThrows\<close>, with the state that the handler asked for.
\<close>

definition chat_try ::
    "app_state \<Rightarrow> chat_reply fetch_outcome \<Rightarrow> js_error + chat_reply option" where
  "chat_try st out =
     (case API_chat out of
        Inl e \<Rightarrow> Inl e
      | Inr None \<Rightarrow>
          if \<not> truthy (sessionId st) then Inl (TypeError (null_read ''session_id''))
          else Inr None
      | Inr (Some response) \<Rightarrow> Inr (Some response))"

definition handleSendMessage ::
    "app_state \<Rightarrow> nat \<Rightarrow> nat \<Rightarrow> chat_reply fetch_outcome \<Rightarrow> app_state \<times> app_effect list" where
  "handleSendMessage st t1 t2 out =
     (if trim (input' st) = [] \<or> loading' st then (st, [])
      else
        let st1 = st\<lparr>messages' := messages' st @
                          [\<lparr>type' = TUser, content' = input' st, timestamp = t1\<rparr>],
                      input' := [], loading' := True\<rparr>;
            req = PostChat \<lparr>chat_message = input' st, chat_session_id = sessionId st\<rparr>
        in (case chat_try st out of
              Inr (Some response) \<Rightarrow>
                (st1\<lparr>sessionId := (if \<not> truthy (sessionId st) then reply_session_id response
                                     else sessionId st1),
                      messages' := messages' st1 @
                          [\<lparr>type' = TAssistant, content' = reply_response response,
                            timestamp = t2\<rparr>],
                      loading' := False\<rparr>, [req])
            | Inr None \<Rightarrow>
                (st1\<lparr>loading' := False\<rparr>,
                 [req, RenderThrows (TypeError (null_read ''response''))])
            | Inl e \<Rightarrow>
                (st1\<lparr>messages' := messages' st1 @
                          [\<lparr>type' = TError,
                            content' = ascii ''Failed to get response. Please try again.'',
                            timestamp = t2\<rparr>],
                      loading' := False\<rparr>, [req])))"

text \<open>\<open>handleGeneratePetition\<close>. The check mark of the success message is U+2713.\<close>

definition handleGeneratePetition ::
    "app_state \<Rightarrow> nat \<Rightarrow> nat \<Rightarrow> draft fetch_outcome \<Rightarrow> app_state \<times> app_effect list" where
  "handleGeneratePetition st t1 t2 out =
     (if trim (facts (caseData st)) = [] then
        (st, [Alert (ascii ''Please provide case facts before generating petition'')])
      else
        let st1 = addSystemMessage
                    (ascii ''Generating petition... This may take 30-60 seconds.'') TSystem t1
                    (st\<lparr>loading' := True\<rparr>);
            req = PostGenerate (caseData st)
        in (case API_generatePetition out of
              Inr d \<Rightarrow>
                ((addSystemMessage
                    (0x2713 # ascii '' Petition draft generated successfully! Review the draft and validation results below.'')
                    TSystem t2 (st1\<lparr>currentDraft := d, showDraft := True\<rparr>))
                 \<lparr>loading' := False\<rparr>, [req])
            | Inl e \<Rightarrow>
                ((addSystemMessage (ascii ''Error generating petition: '' @ error_message e)
                    TError t2 st1)
                 \<lparr>loading' := False\<rparr>, [req])))"

text \<open>
  \<open>handleFinalize\<close>; \<open>approverName\<close> and \<open>approverId\<close> are what the two prompts
  return (\<open>None\<close> when the dialog is cancelled). The case distinction on the two
  answers is the guard \<open>!approverName || !approverId\<close>.
\<close>

definition finalize_try :: "finalize_result fetch_outcome \<Rightarrow> js_error + finalize_result" where
  "finalize_try out =
     (case API_finalizePetition out of
        Inl e \<Rightarrow> Inl e
      | Inr None \<Rightarrow> Inl (TypeError (null_read ''draft_id''))
      | Inr (Some result) \<Rightarrow> Inr result)"

definition finalize_prompts :: "app_effect list" where
  "finalize_prompts =
     [Prompt (ascii ''Enter your name:''), Prompt (ascii ''Enter your Bar Council ID:'')]"

definition finalize_abort :: "app_state \<Rightarrow> app_state \<times> app_effect list" where
  "finalize_abort st = (st, finalize_prompts @ [Alert (ascii ''Approver details required'')])"

definition finalize_send ::
    "app_state \<Rightarrow> draft \<Rightarrow> jsstring \<Rightarrow> jsstring \<Rightarrow> nat \<Rightarrow> finalize_result fetch_outcome
      \<Rightarrow> app_state \<times> app_effect list" where
  "finalize_send st d name ident now out =
     (let st1 = st\<lparr>loading' := True\<rparr>;
          req = PostFinalize (draft_id d)
                  \<lparr>fin_draft_id = draft_id d, approver_name = name, approver_id = ident,
                   fin_notes = ascii ''Approved for filing''\<rparr>
      in (case finalize_try out of
            Inr result \<Rightarrow>
              ((addSystemMessage
                  (ascii ''Petition finalized by '' @ name @ ascii '' ('' @ ident @ ascii '')'')
                  TSystem now st1)
               \<lparr>loading' := False\<rparr>,
               finalize_prompts @
               [req,
                Alert (ascii ''Petition finalized successfully!'' @ [0x0A] @
                       ascii ''Draft ID: '' @ result_draft_id result @ [0x0A] @
                       ascii ''Status: '' @ result_status result)])
          | Inl e \<Rightarrow>
              (st1\<lparr>loading' := False\<rparr>,
               finalize_prompts @ [req, Alert (ascii ''Error: '' @ error_message e)])))"

definition handleFinalize ::
    "app_state \<Rightarrow> jsstring option \<Rightarrow> jsstring option \<Rightarrow> nat \<Rightarrow> finalize_result fetch_outcome
      \<Rightarrow> app_state \<times> app_effect list" where
  "handleFinalize st approverName approverId now out =
     (case currentDraft st of
        None \<Rightarrow> (st, [])
      | Some d \<Rightarrow>
          (case (approverName, approverId) of
             (Some name, Some ident) \<Rightarrow>
               if name = [] \<or> ident = [] then finalize_abort st
               else finalize_send st d name ident now out
           | _ \<Rightarrow> finalize_abort st))"

fun is_app_request :: "app_effect \<Rightarrow> bool" where
  "is_app_request (PostChat r) = True"
| "is_app_request (PostGenerate r) = True"
| "is_app_request (PostFinalize i r) = True"
| "is_app_request e = False"

definition app_requests :: "app_effect list \<Rightarrow> app_effect list" where
  "app_requests effs = filter is_app_request effs"

text \<open>
  The class of the validation panel, chosen from the draft's overall score, and the three
  tiers it stands for.
\<close>

definition validation_className :: "number \<Rightarrow> string" where
  "validation_className score =
     (if js_ge score literal_0_9 then ''bg-green-50 border-green-300''
      else if js_ge score literal_0_75 then ''bg-yellow-50 border-yellow-300''
      else ''bg-red-50 border-red-300'')"

definition pass_tier :: string where "pass_tier = ''bg-green-50 border-green-300''"
definition warn_tier :: string where "warn_tier = ''bg-yellow-50 border-yellow-300''"
definition fail_tier :: string where "fail_tier = ''bg-red-50 border-red-300''"

section \<open>Sample sessions\<close>

definition blank_home :: home_state where
  "blank_home = \<lparr>messages = [], input = [0x20, 0x09, 0x3000], loading = False,
                  feedbackMode = None, feedbackComment = [], showFeedbackSuccess = False\<rparr>"

definition ready_home :: home_state where
  "ready_home =
     \<lparr>messages = [],
      input = ascii ''I need a civil petition for property dispute regarding inheritance'',
      loading = False, feedbackMode = None, feedbackComment = [],
      showFeedbackSuccess = False\<rparr>"

definition sample_data :: petition_data where
  "sample_data = \<lparr>petition = ascii ''PETITION...'', conversation_id = Some (ascii ''abc123''),
                   legal_context = Some [ascii ''Section 42 of the Specific Relief Act...'']\<rparr>"

definition turn_A :: message where
  "turn_A = \<lparr>role = RoleAssistant, content = ascii ''PETITION A'',
              conversationId = Some (ascii ''convA''), legalContext = None\<rparr>"

definition turn_B :: message where
  "turn_B = \<lparr>role = RoleAssistant, content = ascii ''PETITION B'',
              conversationId = Some (ascii ''convB''), legalContext = None\<rparr>"

definition idle_home :: home_state where
  "idle_home = \<lparr>messages = [turn_A, turn_B], input = [], loading = False,
                 feedbackMode = None, feedbackComment = [], showFeedbackSuccess = False\<rparr>"

definition editing_A :: home_state where
  "editing_A = idle_home\<lparr>feedbackMode := Some (ascii ''convA''),
                          feedbackComment := ascii ''too vague''\<rparr>"

definition long_home :: home_state where
  "long_home = ready_home\<lparr>messages := replicate 6 turn_A @ replicate 6 turn_B\<rparr>"

definition sample_case :: case_data where
  "sample_case =
     \<lparr>case_type = ascii ''civil_revision'', jurisdiction = ascii ''Lahore High Court'',
      facts = [], parties = \<lparr>petitioner = [], respondent = []\<rparr>,
      prayers = [], annexures = []\<rparr>"

definition sample_draft :: draft where
  "sample_draft =
     \<lparr>draft_id = ascii ''d1'',
      validation = \<lparr>overall_score = Finite False 3 (- 2), checks = []\<rparr>,
      template_version = ascii ''v1'', created_at = ascii ''2025-01-01'',
      coverage_score = Finite False 1 (- 1)\<rparr>"

definition ready_app :: app_state where
  "ready_app =
     \<lparr>systemStatus = None, loading' = False, messages' = [], input' = ascii ''hello'',
      sessionId = Some (ascii ''s1''), currentDraft = Some sample_draft,
      showDraft = True, templates = [], caseData = sample_case\<rparr>"

definition busy_app :: app_state where
  "busy_app = ready_app\<lparr>loading' := True\<rparr>"

definition reply_abc :: chat_reply where
  "reply_abc = \<lparr>reply_response = ascii ''ok'', reply_session_id = Some (ascii ''abc'')\<rparr>"

definition reply_xyz :: chat_reply where
  "reply_xyz = \<lparr>reply_response = ascii ''ok'', reply_session_id = Some (ascii ''xyz'')\<rparr>"


section \<open>Whitespace-only strings\<close>

lemma trim_empty_iff: "trim s = [] \<longleftrightarrow> (\<forall>c\<in>set s. isWhiteSpace c)"
proof
  assume "trim s = []"
  then have all: "\<forall>c\<in>set (dropWhile isWhiteSpace s). isWhiteSpace c"
    by (simp add: trim_def)
  have "dropWhile isWhiteSpace s = []"
  proof (rule ccontr)
    assume ne: "dropWhile isWhiteSpace s \<noteq> []"
    then have "\<not> isWhiteSpace (hd (dropWhile isWhiteSpace s))"
      by (rule hd_dropWhile)
    moreover have "hd (dropWhile isWhiteSpace s) \<in> set (dropWhile isWhiteSpace s)"
      using ne by (rule hd_in_set)
    ultimately show False using all by blast
  qed
  then show "\<forall>c\<in>set s. isWhiteSpace c" by simp
next
  assume "\<forall>c\<in>set s. isWhiteSpace c"
  then have d: "dropWhile isWhiteSpace s = []" by simp
  show "trim s = []" unfolding trim_def d by simp
qed

section \<open>Submitting a message\<close>

text \<open>
  C1. A submission whose text is empty or consists of whitespace only, or that arrives
  while the busy flag is set, changes nothing: the state (and with it the turn history and
  its length) is as before, and no request is among the effects. This holds for
  \<open>handleSubmit\<close> of the chat client and for \<open>handleSendMessage\<close> of the structured
  client.
\<close>

theorem submit_guard_noop:
  "((\<forall>c\<in>set (input st). isWhiteSpace c) \<or> loading st \<longrightarrow>
      fst (handleSubmit st out) = st \<and>
      length (messages (fst (handleSubmit st out))) = length (messages st) \<and>
      requests (snd (handleSubmit st out)) = []) \<and>
   ((\<forall>c\<in>set (input' st'). isWhiteSpace c) \<or> loading' st' \<longrightarrow>
      fst (handleSendMessage st' t1 t2 out') = st' \<and>
      length (messages' (fst (handleSendMessage st' t1 t2 out'))) = length (messages' st') \<and>
      app_requests (snd (handleSendMessage st' t1 t2 out')) = [])"
  by (simp add: handleSubmit_def handleSubmit_begin_def handleSendMessage_def
      trim_empty_iff requests_def app_requests_def)

theorem submit_guard_noop_witness:
  "input blank_home = [0x20, 0x09, 0x3000] \<and>
   fst (handleSubmit blank_home (Rejected [])) = blank_home \<and>
   requests (snd (handleSubmit blank_home (Rejected []))) = [] \<and>
   loading' busy_app \<and>
   fst (handleSendMessage busy_app 1 2 (Rejected [])) = busy_app \<and>
   app_requests (snd (handleSendMessage busy_app 1 2 (Rejected []))) = []"
proof -
  have h1: "\<forall>c\<in>set (input blank_home). isWhiteSpace c"
    by (simp add: blank_home_def isWhiteSpace_def)
  have h2: "loading' busy_app"
    by (simp add: busy_app_def)
  have h3: "input blank_home = [0x20, 0x09, 0x3000]"
    by (simp add: blank_home_def)
  show ?thesis
    using submit_guard_noop [of blank_home "Rejected []" busy_app 1 2 "Rejected []"] h1 h2 h3
    by simp
qed

text \<open>
  Single flight: in the state that \<open>handleSubmit\<close> leaves behind at its \<open>await\<close>,
  a second submission returns at the guard, whatever has been typed meanwhile.
\<close>

lemma submit_while_outstanding:
  assumes "handleSubmit_begin st = Some (st1, eff)"
  shows "handleSubmit (st1\<lparr>input := typed\<rparr>) out = (st1\<lparr>input := typed\<rparr>, [PreventDefault])"
  using assms
  by (auto simp add: handleSubmit_begin_def handleSubmit_def split: if_splits)

text \<open>
  C2, as amended. After a submission with a text that is not blank, made while not busy,
  and a drafting call that succeeds, the history is the old one followed by the user turn
  and then an assistant turn. In the chat client the assistant turn carries the response's
  \<open>conversation_id\<close> and \<open>legal_context\<close>; in the structured client it carries the
  response text and the time only, and the response's \<open>session_id\<close> goes to the session,
  when the session has none yet.
\<close>

theorem submit_success_two_turns:
  "((\<exists>c\<in>set (input st). \<not> isWhiteSpace c) \<and> \<not> loading st \<and> response_ok s \<longrightarrow>
      messages (fst (handleSubmit st (Resolved s d (Some data)))) =
        messages st @
        [\<lparr>role = RoleUser, content = input st, conversationId = None, legalContext = None\<rparr>,
         \<lparr>role = RoleAssistant, content = petition data,
          conversationId = conversation_id data, legalContext = legal_context data\<rparr>]) \<and>
   ((\<exists>c\<in>set (input' st'). \<not> isWhiteSpace c) \<and> \<not> loading' st' \<and> response_ok s' \<longrightarrow>
      messages' (fst (handleSendMessage st' t1 t2 (Resolved s' d' (Some reply)))) =
        messages' st' @
        [\<lparr>type' = TUser, content' = input' st', timestamp = t1\<rparr>,
         \<lparr>type' = TAssistant, content' = reply_response reply, timestamp = t2\<rparr>] \<and>
      sessionId (fst (handleSendMessage st' t1 t2 (Resolved s' d' (Some reply)))) =
        (if truthy (sessionId st') then sessionId st' else reply_session_id reply))"
  by (simp add: handleSubmit_def handleSubmit_begin_def handleSubmit_resume_def
      petition_call_def userMessage_def assistantMessage_def trim_empty_iff
      handleSendMessage_def chat_try_def API_chat_def api_post_def Let_def)

theorem submit_success_two_turns_witness:
  "messages (fst (handleSubmit ready_home (Resolved 200 None (Some sample_data)))) =
     [\<lparr>role = RoleUser,
       content = ascii ''I need a civil petition for property dispute regarding inheritance'',
       conversationId = None, legalContext = None\<rparr>,
      \<lparr>role = RoleAssistant, content = ascii ''PETITION...'',
       conversationId = Some (ascii ''abc123''),
       legalContext = Some [ascii ''Section 42 of the Specific Relief Act...'']\<rparr>] \<and>
   messages' (fst (handleSendMessage ready_app 1 2 (Resolved 200 None (Some reply_abc)))) =
     [\<lparr>type' = TUser, content' = ascii ''hello'', timestamp = 1\<rparr>,
      \<lparr>type' = TAssistant, content' = ascii ''ok'', timestamp = 2\<rparr>]"
proof -
  have h1: "\<exists>c\<in>set (input ready_home). \<not> isWhiteSpace c"
    by (simp add: ready_home_def ascii_def isWhiteSpace_def)
  have h2: "\<exists>c\<in>set (input' ready_app). \<not> isWhiteSpace c"
    by (simp add: ready_app_def ascii_def isWhiteSpace_def)
  have h3: "\<not> loading ready_home" "\<not> loading' ready_app" "response_ok 200"
    by (simp_all add: ready_home_def ready_app_def response_ok_def)
  show ?thesis
    using submit_success_two_turns
            [of ready_home 200 None sample_data ready_app 200 1 2 None reply_abc] h1 h2 h3
    by (simp add: ready_home_def ready_app_def sample_data_def reply_abc_def)
qed

text \<open>
  The claim as first stated fails in the structured client: the response supplies the
  session reference \<open>abc\<close>, the appended assistant turn holds the text and the time, and
  a response with another session reference leaves the same state behind.
\<close>

theorem assistant_turn_sessionRef_counterexample:
  "reply_session_id reply_abc = Some (ascii ''abc'') \<and>
   last (messages' (fst (handleSendMessage ready_app 1 2 (Resolved 200 None (Some reply_abc))))) =
     \<lparr>type' = TAssistant, content' = ascii ''ok'', timestamp = 2\<rparr> \<and>
   sessionId (fst (handleSendMessage ready_app 1 2 (Resolved 200 None (Some reply_abc)))) =
     Some (ascii ''s1'') \<and>
   fst (handleSendMessage ready_app 1 2 (Resolved 200 None (Some reply_abc))) =
   fst (handleSendMessage ready_app 1 2 (Resolved 200 None (Some reply_xyz)))"
  by (simp add: handleSendMessage_def chat_try_def API_chat_def api_post_def Let_def
      response_ok_def ready_app_def reply_abc_def reply_xyz_def trim_def ascii_def
      isWhiteSpace_def)




text \<open>
  C9. The request of a chat submission carries the text as typed and, as history, the
  last ten turns of the history before the submission (all of it when it is shorter); the
  optimistic user turn comes after that history and is not in the window.
\<close>

theorem submit_request_window:
  "(\<exists>c\<in>set (input st). \<not> isWhiteSpace c) \<Longrightarrow> \<not> loading st \<Longrightarrow>
   requests (snd (handleSubmit st out)) =
     [PostPetition \<lparr>message = input st,
                    conversation_history = drop (length (messages st) - 10) (messages st)\<rparr>] \<and>
   length (drop (length (messages st) - 10) (messages st)) = min 10 (length (messages st)) \<and>
   (\<exists>reply. messages (fst (handleSubmit st out)) =
      messages st @
      [\<lparr>role = RoleUser, content = input st, conversationId = None, legalContext = None\<rparr>,
       reply])"
  by (auto simp add: handleSubmit_def handleSubmit_begin_def handleSubmit_resume_def
      handleSubmit_request_def slice_from_end_def requests_def userMessage_def
      trim_empty_iff split: sum.splits)

theorem submit_request_window_witness:
  "requests (snd (handleSubmit long_home (Resolved 200 None (Some sample_data)))) =
     [PostPetition
        \<lparr>message = ascii ''I need a civil petition for property dispute regarding inheritance'',
         conversation_history = replicate 4 turn_A @ replicate 6 turn_B\<rparr>]"
proof -
  have h1: "\<exists>c\<in>set (input long_home). \<not> isWhiteSpace c"
    by (simp add: long_home_def ready_home_def ascii_def isWhiteSpace_def)
  have h2: "\<not> loading long_home"
    by (simp add: long_home_def ready_home_def)
  have h3: "drop (length (messages long_home) - 10) (messages long_home) =
            replicate 4 turn_A @ replicate 6 turn_B"
    by (simp add: long_home_def numeral_eq_Suc)
  have h4: "input long_home =
            ascii ''I need a civil petition for property dispute regarding inheritance''"
    by (simp add: long_home_def ready_home_def)
  show ?thesis
    using submit_request_window [OF h1 h2, of "Resolved 200 None (Some sample_data)"]
    unfolding h3 h4 by simp
qed

section \<open>Rating a turn\<close>

text \<open>
  C10. Rating a turn that has no session reference (none at all, or an empty one), with
  either rating, changes no state and has no effect: no request, no editor.
\<close>

theorem feedback_without_sessionRef_noop:
  "\<not> truthy (conversationId m) \<Longrightarrow> handleFeedback r m st out = (st, [])"
  by (simp add: handleFeedback_def)

theorem feedback_without_sessionRef_noop_witness:
  "conversationId errorMessage = None \<and>
   handleFeedback Up errorMessage idle_home (Resolved 200 None None) = (idle_home, []) \<and>
   handleFeedback Down errorMessage idle_home (Resolved 200 None None) = (idle_home, [])"
proof -
  have h: "\<not> truthy (conversationId errorMessage)"
    by (simp add: errorMessage_def)
  show ?thesis
    using feedback_without_sessionRef_noop [OF h, of Up idle_home "Resolved 200 None None"]
      feedback_without_sessionRef_noop [OF h, of Down idle_home "Resolved 200 None None"]
    by (simp add: errorMessage_def)
qed

text \<open>
  C5. For a turn with a session reference: a down rating while no editor is open opens
  the editor for that turn and sends nothing; a down rating while that turn's editor is
  open sends exactly one feedback request, with the session reference, the rating, the
  comment or null, and the turn's content, and once that request has been answered the
  editor is closed and the comment buffer cleared. (What a request that is not answered
  at all leaves behind is \<open>feedback_rejected_logged\<close> below.)
\<close>

theorem down_rating_two_step:
  "truthy (conversationId m) \<Longrightarrow>
   (\<not> truthy (feedbackMode st) \<longrightarrow>
      handleFeedback Down m st out = (st\<lparr>feedbackMode := conversationId m\<rparr>, [])) \<and>
   (feedbackMode st = conversationId m \<longrightarrow>
      requests (snd (handleFeedback Down m st out)) =
        [PostFeedback \<lparr>fb_conversation_id = conversationId m, fb_rating = Down,
                       fb_comment = (if feedbackComment st = [] then None
                                     else Some (feedbackComment st)),
                       fb_petition_text = content m\<rparr>] \<and>
      feedbackMode (fst (handleFeedback Down m st (Resolved s d b))) = None \<and>
      feedbackComment (fst (handleFeedback Down m st (Resolved s d b))) = [])"
  by (cases out) (auto simp add: handleFeedback_def feedback_body_def requests_def)

theorem down_rating_two_step_witness:
  "handleFeedback Down turn_A idle_home (Resolved 200 None None) =
     (idle_home\<lparr>feedbackMode := Some (ascii ''convA'')\<rparr>, []) \<and>
   requests (snd (handleFeedback Down turn_A editing_A (Resolved 200 None None))) =
     [PostFeedback \<lparr>fb_conversation_id = Some (ascii ''convA''), fb_rating = Down,
                    fb_comment = Some (ascii ''too vague''),
                    fb_petition_text = ascii ''PETITION A''\<rparr>] \<and>
   feedbackMode (fst (handleFeedback Down turn_A editing_A (Resolved 200 None None))) = None \<and>
   feedbackComment (fst (handleFeedback Down turn_A editing_A (Resolved 200 None None))) = []"
proof -
  have h: "truthy (conversationId turn_A)"
    by (simp add: turn_A_def ascii_def)
  have h1: "\<not> truthy (feedbackMode idle_home)"
    by (simp add: idle_home_def)
  have h2: "feedbackMode editing_A = conversationId turn_A"
    by (simp add: editing_A_def turn_A_def)
  have c: "conversationId turn_A = Some (ascii ''convA'')" "content turn_A = ascii ''PETITION A''"
    "feedbackComment editing_A = ascii ''too vague''"
    by (simp_all add: turn_A_def editing_A_def)
  have ne: "ascii ''too vague'' \<noteq> []"
    by (simp add: ascii_def)
  show ?thesis
    using down_rating_two_step [OF h, of idle_home "Resolved 200 None None" 200 None None]
      down_rating_two_step [OF h, of editing_A "Resolved 200 None None" 200 None None] h1 h2
    by (simp add: c ne)
qed

text \<open>
  C4. With the editor open for turn A, a down rating on another turn B does not open an
  editor for B: the handler sends B's rating at once, with the comment typed for A, and
  then closes A's editor (or, when the request is rejected, leaves A's editor open).
\<close>

theorem down_rating_other_editor_open:
  "handleFeedback Down turn_B editing_A (Resolved 200 None None) =
     (idle_home\<lparr>showFeedbackSuccess := True\<rparr>,
      [PostFeedback \<lparr>fb_conversation_id = Some (ascii ''convB''), fb_rating = Down,
                     fb_comment = Some (ascii ''too vague''),
                     fb_petition_text = ascii ''PETITION B''\<rparr>,
       SetTimeout 3000]) \<and>
   feedbackMode (fst (handleFeedback Down turn_B editing_A (Resolved 200 None None))) \<noteq>
     conversationId turn_B \<and>
   feedbackMode (fst (handleFeedback Down turn_B editing_A (Rejected []))) =
     Some (ascii ''convA'')"
  by (simp add: handleFeedback_def feedback_body_def editing_A_def idle_home_def
      turn_A_def turn_B_def ascii_def)

text \<open>
  C6. A feedback request answered with status 502 is treated as a success: the notice
  is shown, the editor closed and the comment cleared, and nothing is logged.
\<close>

theorem feedback_non_2xx_shows_success:
  "\<not> response_ok 502 \<and>
   handleFeedback Down turn_A editing_A (Resolved 502 None None) =
     (idle_home\<lparr>showFeedbackSuccess := True\<rparr>,
      [PostFeedback \<lparr>fb_conversation_id = Some (ascii ''convA''), fb_rating = Down,
                     fb_comment = Some (ascii ''too vague''),
                     fb_petition_text = ascii ''PETITION A''\<rparr>,
       SetTimeout 3000])"
  by (simp add: handleFeedback_def feedback_body_def editing_A_def idle_home_def
      turn_A_def response_ok_def ascii_def)

text \<open>
  What the code does for the other kind of failure, a rejected request: it logs the
  error, and the state, the notice, editor and comment included, is as it was.
\<close>

lemma feedback_rejected_logged:
  assumes "truthy (conversationId m)" and "r = Up \<or> truthy (feedbackMode st)"
  shows "handleFeedback r m st (Rejected e) =
           (st, [PostFeedback (feedback_body st r m),
                 ConsoleError (ascii ''Error submitting feedback:'') (TypeError e)])"
  using assms by (auto simp add: handleFeedback_def)

section \<open>Client-side validation\<close>

text \<open>
  C8. Draft generation with facts that are empty or whitespace only, and finalization
  with a missing (cancelled or empty) approver name or bar ID, leave the whole state,
  the draft included, as it was and send no request.
\<close>

theorem validation_failure_short_circuits:
  "((\<forall>c\<in>set (facts (caseData st)). isWhiteSpace c) \<longrightarrow>
      fst (handleGeneratePetition st t1 t2 out) = st \<and>
      currentDraft (fst (handleGeneratePetition st t1 t2 out)) = currentDraft st \<and>
      app_requests (snd (handleGeneratePetition st t1 t2 out)) = []) \<and>
   (\<not> truthy approverName \<or> \<not> truthy approverId \<longrightarrow>
      fst (handleFinalize st approverName approverId now out') = st \<and>
      currentDraft (fst (handleFinalize st approverName approverId now out')) = currentDraft st \<and>
      app_requests (snd (handleFinalize st approverName approverId now out')) = [])"
  by (cases approverName; cases approverId)
     (auto simp add: handleGeneratePetition_def handleFinalize_def finalize_abort_def
      finalize_prompts_def app_requests_def trim_empty_iff split: option.splits)

theorem validation_failure_short_circuits_witness:
  "facts (caseData ready_app) = [] \<and>
   fst (handleGeneratePetition ready_app 1 2 (Rejected [])) = ready_app \<and>
   app_requests (snd (handleGeneratePetition ready_app 1 2 (Rejected []))) = [] \<and>
   fst (handleFinalize ready_app (Some []) (Some (ascii ''B-1'')) 3 (Rejected [])) = ready_app \<and>
   currentDraft (fst (handleFinalize ready_app (Some []) (Some (ascii ''B-1'')) 3 (Rejected []))) =
     Some sample_draft \<and>
   app_requests (snd (handleFinalize ready_app (Some []) (Some (ascii ''B-1'')) 3 (Rejected []))) = []"
proof -
  have f: "facts (caseData ready_app) = []"
    by (simp add: ready_app_def sample_case_def)
  then have h1: "\<forall>c\<in>set (facts (caseData ready_app)). isWhiteSpace c"
    by simp
  have h2: "\<not> truthy (Some []) \<or> \<not> truthy (Some (ascii ''B-1''))"
    by simp
  have d: "currentDraft ready_app = Some sample_draft"
    by (simp add: ready_app_def)
  show ?thesis
    using validation_failure_short_circuits
            [of ready_app 1 2 "Rejected []" "Some []" "Some (ascii ''B-1'')" 3 "Rejected []"]
      h1 h2 f d
    by simp
qed

section \<open>Validation tiers\<close>

lemma finite_value_negative: "finite_value True m e \<le> 0"
  by (simp add: finite_value_def)

lemma literal_0_9_value:
  "finite_value False 8106479329266893 (- 53) = 8106479329266893 / 2 ^ 53"
  by (simp add: finite_value_def)

lemma literal_0_75_value: "finite_value False 3 (- 2) = 3 / 4"
  by (simp add: finite_value_def)

text \<open>
  No double lies between nine tenths and the double that the literal \<open>0.9\<close> denotes:
  a value with a significand below \<open>2 ^ 53\<close> that is at least nine tenths is a multiple
  of \<open>2 ^ - 53\<close>, or at least one.
\<close>

lemma no_double_between:
  assumes m: "m < 2 ^ 53" and v: "9 / 10 \<le> finite_value False m e"
  shows "8106479329266893 / 2 ^ 53 \<le> finite_value False m e"
proof -
  consider (nonneg) "0 \<le> e" | (mid) "- 53 \<le> e" "e < 0" | (small) "e < - 53"
    by linarith
  then show ?thesis
  proof cases
    case nonneg
    then have eq: "finite_value False m e = real (m * 2 ^ nat e)"
      by (simp add: finite_value_def)
    with v have "9 / 10 \<le> real (m * 2 ^ nat e)" by simp
    then have "1 \<le> m * 2 ^ nat e" by linarith
    then have "1 \<le> real (m * 2 ^ nat e)" by linarith
    then show ?thesis unfolding eq by simp
  next
    case mid
    define j where "j = nat (- e)"
    have j: "j \<le> 53" using mid by (simp add: j_def)
    define k where "k = m * 2 ^ (53 - j)"
    have pow: "(2::real) ^ 53 = 2 ^ j * 2 ^ (53 - j)"
      using j by (simp flip: power_add)
    have "finite_value False m e = real m / 2 ^ j"
      using mid by (simp add: finite_value_def j_def)
    also have "\<dots> = (real m * 2 ^ (53 - j)) / (2 ^ j * 2 ^ (53 - j))"
      by simp
    also have "\<dots> = real k / 2 ^ 53"
      unfolding pow k_def by simp
    finally have eq: "finite_value False m e = real k / 2 ^ 53" .
    from v have "9 / 10 \<le> real k / 2 ^ 53" unfolding eq .
    then have "9 * 2 ^ 53 \<le> 10 * real k" by (simp add: field_simps)
    then have "real (9 * 2 ^ 53) \<le> real (10 * k)" by simp
    then have "9 * 2 ^ 53 \<le> 10 * k" by (simp only: of_nat_le_iff)
    then have "8106479329266893 \<le> k" by simp
    then have "8106479329266893 \<le> real k" by linarith
    then show ?thesis unfolding eq by (simp add: divide_right_mono)
  next
    case small
    define j where "j = nat (- e)"
    have j: "54 \<le> j" using small by (simp add: j_def)
    have eq: "finite_value False m e = real m / 2 ^ j"
      using small by (simp add: finite_value_def j_def)
    have p54: "(2::real) ^ 54 \<le> 2 ^ j" using j by (intro power_increasing) simp_all
    have "real m / 2 ^ j \<le> real m / 2 ^ 54"
      by (rule frac_le [OF _ order_refl _ p54]) simp_all
    moreover have "real m < 2 ^ 53" using m by (metis of_nat_less_iff of_nat_numeral of_nat_power)
    then have "real m / 2 ^ 54 < 1 / 2" by simp
    ultimately have "finite_value False m e < 9 / 10" unfolding eq by linarith
    with v show ?thesis by simp
  qed
qed

lemma ge_literal_0_9:
  assumes "m < 2 ^ 53"
  shows "js_ge (Finite s m e) literal_0_9 \<longleftrightarrow> 9 / 10 \<le> finite_value s m e"
proof (cases s)
  case True
  have "finite_value True m e \<le> 0" by (rule finite_value_negative)
  then show ?thesis using True by (simp add: literal_0_9_def literal_0_9_value)
next
  case False
  have "(9::real) / 10 \<le> 8106479329266893 / 2 ^ 53" by simp
  then show ?thesis
    using False no_double_between [OF assms, of e]
    by (auto simp add: literal_0_9_def literal_0_9_value)
qed

lemma ge_literal_0_75:
  "js_ge (Finite s m e) literal_0_75 \<longleftrightarrow> 3 / 4 \<le> finite_value s m e"
  by (simp add: literal_0_75_def literal_0_75_value)

text \<open>
  C7. For every score that is a double, the class of the validation panel is the pass
  tier when the score is at least 0.90, the warn tier when it is at least 0.75 and below
  0.90, and the fail tier otherwise; both bounds are inclusive. A score that is not a
  number gets the fail tier.
\<close>

theorem validation_tiers:
  "(m < 2 ^ 53 \<longrightarrow>
      (9 / 10 \<le> finite_value s m e \<longrightarrow> validation_className (Finite s m e) = pass_tier) \<and>
      (3 / 4 \<le> finite_value s m e \<and> finite_value s m e < 9 / 10 \<longrightarrow>
         validation_className (Finite s m e) = warn_tier) \<and>
      (finite_value s m e < 3 / 4 \<longrightarrow> validation_className (Finite s m e) = fail_tier)) \<and>
   validation_className (Infinity False) = pass_tier \<and>
   validation_className (Infinity True) = fail_tier \<and>
   validation_className NaN = fail_tier"
proof -
  have inf: "validation_className (Infinity False) = pass_tier"
    by (simp add: validation_className_def literal_0_9_def pass_tier_def)
  have ninf: "validation_className (Infinity True) = fail_tier"
    by (simp add: validation_className_def literal_0_9_def literal_0_75_def fail_tier_def)
  have nan: "validation_className NaN = fail_tier"
    by (simp add: validation_className_def fail_tier_def)
  have fin: "(9 / 10 \<le> finite_value s m e \<longrightarrow> validation_className (Finite s m e) = pass_tier) \<and>
      (3 / 4 \<le> finite_value s m e \<and> finite_value s m e < 9 / 10 \<longrightarrow>
         validation_className (Finite s m e) = warn_tier) \<and>
      (finite_value s m e < 3 / 4 \<longrightarrow> validation_className (Finite s m e) = fail_tier)"
    if "m < 2 ^ 53"
    using that
    by (simp add: validation_className_def ge_literal_0_9 ge_literal_0_75
        pass_tier_def warn_tier_def fail_tier_def)
  show ?thesis using inf ninf nan fin by blast
qed

text \<open>
  The scores 0.95, 0.80, 0.50, 0.90 and 0.75 of the specification, as the doubles that
  these decimals denote.
\<close>

theorem validation_tiers_witness:
  "validation_className (Finite False 4278419646001971 (- 52)) = pass_tier \<and>
   validation_className (Finite False 3602879701896397 (- 52)) = warn_tier \<and>
   validation_className (Finite False 1 (- 1)) = fail_tier \<and>
   validation_className (Finite False 8106479329266893 (- 53)) = pass_tier \<and>
   validation_className (Finite False 3 (- 2)) = warn_tier"
proof -
  have v: "finite_value False 4278419646001971 (- 52) = 4278419646001971 / 2 ^ 52"
    "finite_value False 3602879701896397 (- 52) = 3602879701896397 / 2 ^ 52"
    "finite_value False 1 (- 1) = 1 / 2"
    "finite_value False 8106479329266893 (- 53) = 8106479329266893 / 2 ^ 53"
    "finite_value False 3 (- 2) = 3 / 4"
    by (simp_all add: finite_value_def)
  show ?thesis
    using validation_tiers [of 4278419646001971 False "- 52"]
      validation_tiers [of 3602879701896397 False "- 52"]
      validation_tiers [of 1 False "- 1"]
      validation_tiers [of 8106479329266893 False "- 53"]
      validation_tiers [of 3 False "- 2"]
    unfolding v by simp
qed

end
